theory Spec2Isabelle
  imports Main "HOL-Library.Char_ord" "HOL-Library.List_Lexorder" "HOL-Library.Multiset"
begin

section \<open>Command objects of the cobra library\<close>

text \<open>
  The shell keeps \<^verbatim>\<open>*cobra.Command\<close> pointers in two places (the root command's child list
  and the per-module lists) and \<^verbatim>\<open>OnExit\<close> assigns to a field through such a pointer.
  Command objects therefore live in a store indexed by address; every list of commands is a
  list of addresses, and two entries are the same descriptor exactly when the addresses agree
  (Go's \<^verbatim>\<open>==\<close> on pointers).
\<close>

type_synonym addr = nat

text \<open>An exit handler passed to \<^verbatim>\<open>OnExit\<close> is an opaque \<^verbatim>\<open>func()\<close>, named by a number.\<close>

type_synonym hook = nat

text \<open>
  The \<^verbatim>\<open>Run\<close> field of a command is a closure. The closures that occur are: none (a nil
  field), the body of the core module's exit command, any other handler (opaque, named by a
  label), and the closure \<^verbatim>\<open>OnExit\<close> builds around the previous value of the field.
\<close>

datatype run_fn =
    NilRun
  | CoreExit
  | Handler string
  | ExitWrapper hook run_fn

datatype event =
    Stdout string
  | HookCalled hook
  | HandlerCalled string
  | OsExit int
  | NilPanic

text \<open>
  What calling a \<^verbatim>\<open>Run\<close> closure does, as the sequence of its effects. The exit body is
  \<^verbatim>\<open>fmt.Println("Goodbye!"); os.Exit(0)\<close>; the wrapper is
  \<^verbatim>\<open>fn(); originalRun(c, args)\<close>.
\<close>

fun call_run :: "run_fn \<Rightarrow> event list" where
  "call_run NilRun = [NilPanic]"
| "call_run CoreExit = [Stdout ''Goodbye!\<newline>'', OsExit 0]"
| "call_run (Handler h) = [HandlerCalled h]"
| "call_run (ExitWrapper fn originalRun) = HookCalled fn # call_run originalRun"

record Command =
  Use :: string
  Short :: string
  Long :: string
  Aliases :: "string list"
  Run :: run_fn

text \<open>\<^verbatim>\<open>strings.Join\<close>.\<close>

fun Join :: "string list \<Rightarrow> string \<Rightarrow> string" where
  "Join [] sep = []"
| "Join [x] sep = x"
| "Join (x # y # ys) sep = x @ sep @ Join (y # ys) sep"

text \<open>
  \<^verbatim>\<open>Command.Name()\<close> of cobra: the first word of the use line, that is \<^verbatim>\<open>Use\<close> up to its
  first space. \<^verbatim>\<open>Command.NameAndAliases()\<close> of cobra: the name and all aliases joined by
  a comma and a space into one string.
\<close>

definition Name_cmd :: "Command \<Rightarrow> string" where
  "Name_cmd c = takeWhile (\<lambda>ch. ch \<noteq> CHR '' '') (Use c)"

definition NameAndAliases :: "Command \<Rightarrow> string" where
  "NameAndAliases c = Join (Name_cmd c # Aliases c) '', ''"

text \<open>
  The root command, a command itself, with its child list \<^verbatim>\<open>commands\<close>, the flag
  \<^verbatim>\<open>commandsAreSorted\<close>, which help function is installed (cobra's default, or the closure
  the core module sets), and the pointer \<^verbatim>\<open>helpCommand\<close> to cobra's own help command, nil
  until cobra creates it.
\<close>

datatype help_fn = DefaultHelp | ModuleHelp

record RootCommand = Command +
  commands :: "addr list"
  commandsAreSorted :: bool
  helpFunc :: help_fn
  helpCommand :: "addr option"

text \<open>
  The methods of \<^verbatim>\<open>cobra.Command\<close> the shell calls (library \<^verbatim>\<open>github.com/spf13/cobra\<close>,
  file \<^verbatim>\<open>command.go\<close>). \<^verbatim>\<open>AddCommand\<close> appends the pointer to the child list (it does not
  look for the command or its name in the list) and clears the sorted flag.
  \<^verbatim>\<open>RemoveCommand\<close> rebuilds the list without the entries equal to the given pointer.
  \<^verbatim>\<open>Commands()\<close> sorts the child list by name in place, unless the flag says it is sorted,
  sets the flag and returns the list. Strings compare bytewise, as in Go. The sort is
  modelled as stable; Go's \<^verbatim>\<open>sort.Sort\<close> is stable on lists of at most 12 elements and
  promises nothing beyond, and the choice matters only between commands of equal name.
\<close>

definition AddCommand :: "RootCommand \<Rightarrow> addr \<Rightarrow> RootCommand" where
  "AddCommand c x = c\<lparr>commands := commands c @ [x], commandsAreSorted := False\<rparr>"

definition RemoveCommand :: "RootCommand \<Rightarrow> addr \<Rightarrow> RootCommand" where
  "RemoveCommand c x = c\<lparr>commands := filter (\<lambda>command. command \<noteq> x) (commands c)\<rparr>"

definition Commands :: "(addr \<Rightarrow> Command) \<Rightarrow> RootCommand \<Rightarrow> addr list \<times> RootCommand" where
  "Commands h c =
     (if \<not> commandsAreSorted c
      then (let cs = sort_key (\<lambda>a. Name_cmd (h a)) (commands c)
            in (cs, c\<lparr>commands := cs, commandsAreSorted := True\<rparr>))
      else (commands c, c))"

section \<open>The shell\<close>

text \<open>The part of the readline instance the shell writes: prompt and completion words.\<close>

record Readline =
  Prompt :: string
  AutoComplete :: "string list"

text \<open>
  The interface \<^verbatim>\<open>module.CommandModule\<close> (package \<^verbatim>\<open>module\<close>) has the methods
  \<^verbatim>\<open>GetCommands()\<close>, \<^verbatim>\<open>Name()\<close> and \<^verbatim>\<open>Initialize(shell)\<close>. The record holds what the first
  two return. \<^verbatim>\<open>Initialize\<close> acts on the shell and is passed to \<open>RegisterModule\<close> next to
  the module.
\<close>

record CommandModule =
  Name :: string
  GetCommands :: "addr list"

text \<open>A value of type \<^verbatim>\<open>interface{}\<close>: nil or some value.\<close>

datatype 'v iface = Nil | Val 'v

datatype error =
    ModuleNotFound string
  | ProtectedModule
  | ReadlineError string

fun Error :: "error \<Rightarrow> string" where
  "Error (ModuleNotFound moduleName) = ''module not found: '' @ moduleName"
| "Error ProtectedModule = ''cannot disable core module''"
| "Error (ReadlineError msg) = msg"

record 'v Shell =
  rootCmd :: RootCommand
  rl :: Readline
  currentPrompt :: string
  commandModules :: "CommandModule list"
  banner :: string
  enabledModules :: "string \<rightharpoonup> bool"
  moduleCommands :: "string \<rightharpoonup> addr list"
  State :: "string \<rightharpoonup> 'v iface"
  heap :: "addr \<Rightarrow> Command"

text \<open>Reading a Go map at a key that may be absent yields the zero value.\<close>

definition IsModuleEnabled :: "'v Shell \<Rightarrow> string \<Rightarrow> bool" where
  "IsModuleEnabled s moduleName =
     (case enabledModules s moduleName of None \<Rightarrow> False | Some b \<Rightarrow> b)"

definition commandsOf :: "'v Shell \<Rightarrow> string \<Rightarrow> addr list" where
  "commandsOf s moduleName =
     (case moduleCommands s moduleName of None \<Rightarrow> [] | Some cmds \<Rightarrow> cmds)"

definition GetModules :: "'v Shell \<Rightarrow> string list" where
  "GetModules s = map Name (commandModules s)"

definition addCommands :: "'v Shell \<Rightarrow> addr list \<Rightarrow> 'v Shell" where
  "addCommands s cmds = foldl (\<lambda>s cmd. s\<lparr>rootCmd := AddCommand (rootCmd s) cmd\<rparr>) s cmds"

definition removeCommands :: "'v Shell \<Rightarrow> addr list \<Rightarrow> 'v Shell" where
  "removeCommands s cmds = foldl (\<lambda>s cmd. s\<lparr>rootCmd := RemoveCommand (rootCmd s) cmd\<rparr>) s cmds"

definition updateCompleter :: "'v Shell \<Rightarrow> 'v Shell" where
  "updateCompleter s =
     (let (cs, c) = Commands (heap s) (rootCmd s)
      in s\<lparr>rootCmd := c,
           rl := (rl s)\<lparr>AutoComplete := map (\<lambda>cmd. Name_cmd (heap s cmd)) cs\<rparr>\<rparr>)"

definition RegisterModule ::
  "'v Shell \<Rightarrow> CommandModule \<Rightarrow> ('v Shell \<Rightarrow> 'v Shell) \<Rightarrow> 'v Shell" where
  "RegisterModule s module Initialize =
     (let moduleName = Name module;
          s1 = s\<lparr>commandModules := commandModules s @ [module]\<rparr>;
          cmds = GetCommands module;
          s2 = s1\<lparr>moduleCommands := (moduleCommands s1)(moduleName \<mapsto> cmds)\<rparr>;
          s3 = s2\<lparr>enabledModules := (enabledModules s2)(moduleName \<mapsto> True)\<rparr>;
          s4 = addCommands s3 cmds;
          s5 = Initialize s4
      in updateCompleter s5)"

definition SetPrompt :: "'v Shell \<Rightarrow> string \<Rightarrow> 'v Shell" where
  "SetPrompt s prompt =
     (let s1 = s\<lparr>currentPrompt := prompt @ '' ''\<rparr>
      in s1\<lparr>rl := (rl s1)\<lparr>Prompt := currentPrompt s1\<rparr>\<rparr>)"

definition SetState :: "'v Shell \<Rightarrow> string \<Rightarrow> 'v iface \<Rightarrow> 'v Shell" where
  "SetState s key val = s\<lparr>State := (State s)(key \<mapsto> val)\<rparr>"

definition GetState :: "'v Shell \<Rightarrow> string \<Rightarrow> 'v iface \<times> bool" where
  "GetState s key = (case State s key of None \<Rightarrow> (Nil, False) | Some val \<Rightarrow> (val, True))"

definition moduleFound :: "'v Shell \<Rightarrow> string \<Rightarrow> bool" where
  "moduleFound s moduleName = list_ex (\<lambda>module. Name module = moduleName) (commandModules s)"

definition EnableModule :: "'v Shell \<Rightarrow> string \<Rightarrow> error option \<times> 'v Shell" where
  "EnableModule s moduleName =
     (if \<not> moduleFound s moduleName then (Some (ModuleNotFound moduleName), s)
      else if IsModuleEnabled s moduleName then (None, s)
      else (let s1 = s\<lparr>enabledModules := (enabledModules s)(moduleName \<mapsto> True)\<rparr>;
                s2 = addCommands s1 (commandsOf s1 moduleName)
            in (None, updateCompleter s2)))"

definition DisableModule :: "'v Shell \<Rightarrow> string \<Rightarrow> error option \<times> 'v Shell" where
  "DisableModule s moduleName =
     (if moduleName = ''core'' then (Some ProtectedModule, s)
      else if \<not> moduleFound s moduleName then (Some (ModuleNotFound moduleName), s)
      else if \<not> IsModuleEnabled s moduleName then (None, s)
      else (let s1 = s\<lparr>enabledModules := (enabledModules s)(moduleName \<mapsto> False)\<rparr>;
                s2 = removeCommands s1 (commandsOf s1 moduleName)
            in (None, updateCompleter s2)))"

text \<open>
  \<^verbatim>\<open>strings.TrimSpace\<close> removes the leading and then the trailing runes for which
  \<^verbatim>\<open>unicode.IsSpace\<close> holds. A Go string is a byte sequence; the table lists the UTF-8
  encodings of the white-space runes: space, tab, line feed, vertical tab, form feed,
  carriage return, U+0085, U+00A0, U+1680, U+2000 to U+200A, U+2028, U+2029, U+202F, U+205F
  and U+3000. A byte sequence that is not one of these encodings decodes to another rune or
  to the error rune, neither of which is white space.
\<close>

definition unicodeSpaces :: "string list" where
  "unicodeSpaces =
     [ [CHR 0x20], [CHR 0x09], [CHR 0x0A], [CHR 0x0B], [CHR 0x0C], [CHR 0x0D],
      [CHR 0xC2, CHR 0x85], [CHR 0xC2, CHR 0xA0], [CHR 0xE1, CHR 0x9A, CHR 0x80],
      [CHR 0xE2, CHR 0x80, CHR 0x80], [CHR 0xE2, CHR 0x80, CHR 0x81],
      [CHR 0xE2, CHR 0x80, CHR 0x82], [CHR 0xE2, CHR 0x80, CHR 0x83],
      [CHR 0xE2, CHR 0x80, CHR 0x84], [CHR 0xE2, CHR 0x80, CHR 0x85],
      [CHR 0xE2, CHR 0x80, CHR 0x86], [CHR 0xE2, CHR 0x80, CHR 0x87],
      [CHR 0xE2, CHR 0x80, CHR 0x88], [CHR 0xE2, CHR 0x80, CHR 0x89],
      [CHR 0xE2, CHR 0x80, CHR 0x8A], [CHR 0xE2, CHR 0x80, CHR 0xA8],
      [CHR 0xE2, CHR 0x80, CHR 0xA9], [CHR 0xE2, CHR 0x80, CHR 0xAF],
      [CHR 0xE2, CHR 0x81, CHR 0x9F], [CHR 0xE3, CHR 0x80, CHR 0x80] ]"

text \<open>The white-space rune a string starts with, and the one it ends with, if any.\<close>

definition leadingSpace :: "string \<Rightarrow> string option" where
  "leadingSpace s = find (\<lambda>e. take (length e) s = e) unicodeSpaces"

definition trailingSpace :: "string \<Rightarrow> string option" where
  "trailingSpace s =
     find (\<lambda>e. length e \<le> length s \<and> drop (length s - length e) s = e) unicodeSpaces"

function TrimLeftSpace :: "string \<Rightarrow> string" where
  "TrimLeftSpace s =
     (case leadingSpace s of
        None \<Rightarrow> s
      | Some e \<Rightarrow> TrimLeftSpace (drop (length e) s))"
  by pat_completeness auto
termination
proof (relation "measure length")
  show "wf (measure (length :: string \<Rightarrow> nat))" by simp
next
  fix s e :: string
  assume "leadingSpace s = Some e"
  then have mem: "e \<in> set unicodeSpaces" and pre: "take (length e) s = e"
    by (auto simp: leadingSpace_def find_Some_iff in_set_conv_nth)
  from mem have "e \<noteq> []" by (auto simp: unicodeSpaces_def)
  with pre have "s \<noteq> []" by auto
  with \<open>e \<noteq> []\<close> show "(drop (length e) s, s) \<in> measure length" by simp
qed

function TrimRightSpace :: "string \<Rightarrow> string" where
  "TrimRightSpace s =
     (case trailingSpace s of
        None \<Rightarrow> s
      | Some e \<Rightarrow> TrimRightSpace (take (length s - length e) s))"
  by pat_completeness auto
termination
proof (relation "measure length")
  show "wf (measure (length :: string \<Rightarrow> nat))" by simp
next
  fix s e :: string
  assume "trailingSpace s = Some e"
  then have mem: "e \<in> set unicodeSpaces" and le: "length e \<le> length s"
    by (auto simp: trailingSpace_def find_Some_iff in_set_conv_nth)
  from mem have "e \<noteq> []" by (auto simp: unicodeSpaces_def)
  with le show "(take (length s - length e) s, s) \<in> measure length" by (cases e) auto
qed

declare TrimLeftSpace.simps [simp del] TrimRightSpace.simps [simp del]

definition TrimSpace :: "string \<Rightarrow> string" where
  "TrimSpace s = TrimRightSpace (TrimLeftSpace s)"

definition GetPrompt :: "'v Shell \<Rightarrow> string" where
  "GetPrompt s = TrimSpace (currentPrompt s)"

text \<open>
  \<^verbatim>\<open>OnExit\<close> walks \<^verbatim>\<open>Commands()\<close>, and at the first command named exit replaces its
  \<^verbatim>\<open>Run\<close> by a closure that calls the handler and then the previous \<^verbatim>\<open>Run\<close>.
\<close>

definition OnExit :: "'v Shell \<Rightarrow> hook \<Rightarrow> 'v Shell" where
  "OnExit s fn =
     (let (cs, c) = Commands (heap s) (rootCmd s);
          s1 = s\<lparr>rootCmd := c\<rparr>
      in case find (\<lambda>cmd. Name_cmd (heap s1 cmd) = ''exit'') cs of
           None \<Rightarrow> s1
         | Some cmd \<Rightarrow>
             (let originalRun = Run (heap s1 cmd)
              in s1\<lparr>heap := (heap s1)(cmd := (heap s1 cmd)\<lparr>Run := ExitWrapper fn originalRun\<rparr>)\<rparr>))"

text \<open>
  \<^verbatim>\<open>Run\<close> and \<^verbatim>\<open>ExecuteCommand\<close> call \<^verbatim>\<open>rootCmd.Execute()\<close> for every command line. Before
  it dispatches, cobra's \<^verbatim>\<open>Execute\<close> calls \<^verbatim>\<open>InitDefaultHelpCmd\<close>: when the root has
  children, it creates the help command if \<^verbatim>\<open>helpCommand\<close> is nil, removes it from the
  children and adds it again. \<open>a\<close> is the address at which a new help command is allocated.
  (cobra's default completion command is switched off in \<^verbatim>\<open>NewShell\<close>, and the hidden
  command for completion requests, which \<^verbatim>\<open>Execute\<close> also adds, is removed again at once
  unless the line itself is such a request.)
\<close>

definition helpCmd :: "string \<Rightarrow> Command" where
  "helpCmd rootName =
     \<lparr>Use = ''help [command]'', Short = ''Help about any command'',
      Long = ''Help provides help for any command in the application.\<newline>Simply type ''
             @ rootName @ '' help [path to command] for full details.'',
      Aliases = [], Run = Handler ''help''\<rparr>"

definition InitDefaultHelpCmd :: "'v Shell \<Rightarrow> addr \<Rightarrow> 'v Shell" where
  "InitDefaultHelpCmd s a =
     (let c = rootCmd s
      in if commands c = [] then s
         else (case helpCommand c of
                 None \<Rightarrow>
                   (let rootName = takeWhile (\<lambda>ch. ch \<noteq> CHR '' '') (Use c);
                        s1 = s\<lparr>heap := (heap s)(a := helpCmd rootName)\<rparr>;
                        c1 = c\<lparr>helpCommand := Some a\<rparr>
                    in s1\<lparr>rootCmd := AddCommand (RemoveCommand c1 a) a\<rparr>)
               | Some h \<Rightarrow> s\<lparr>rootCmd := AddCommand (RemoveCommand c h) h\<rparr>))"

section \<open>The core module and shell construction\<close>

definition exitCmd :: Command where
  "exitCmd = \<lparr>Use = ''exit'', Short = ''Exit the shell'', Long = [], Aliases = [],
              Run = CoreExit\<rparr>"

definition modulesCmd :: Command where
  "modulesCmd = \<lparr>Use = ''modules'', Short = ''List available modules'', Long = [],
                 Aliases = [], Run = Handler ''modules''\<rparr>"

definition enableCmd :: Command where
  "enableCmd = \<lparr>Use = ''enable [module]'', Short = ''Enable a module'', Long = [],
                Aliases = [], Run = Handler ''enable''\<rparr>"

definition disableCmd :: Command where
  "disableCmd = \<lparr>Use = ''disable [module]'', Short = ''Disable a module'', Long = [],
                 Aliases = [], Run = Handler ''disable''\<rparr>"

text \<open>
  The core module's \<^verbatim>\<open>GetCommands\<close> allocates its four commands; they are placed at the
  addresses 0 to 3. Its \<^verbatim>\<open>Initialize\<close> installs the module-based help function.
\<close>

definition coreModule :: CommandModule where
  "coreModule = \<lparr>Name = ''core'', GetCommands = [0, 1, 2, 3]\<rparr>"

definition coreObjects :: "(addr \<Rightarrow> Command) \<Rightarrow> addr \<Rightarrow> Command" where
  "coreObjects h = h(0 := exitCmd, 1 := modulesCmd, 2 := enableCmd, 3 := disableCmd)"

definition coreInitialize :: "'v Shell \<Rightarrow> 'v Shell" where
  "coreInitialize s = s\<lparr>rootCmd := (rootCmd s)\<lparr>helpFunc := ModuleHelp\<rparr>\<rparr>"

text \<open>
  \<^verbatim>\<open>NewShell\<close>. \<open>rlErr\<close> is the error of \<^verbatim>\<open>readline.NewEx\<close>, if it fails; \<open>h\<close> holds the
  command objects other modules have allocated.
\<close>

definition shellStruct :: "string \<Rightarrow> string \<Rightarrow> (addr \<Rightarrow> Command) \<Rightarrow> 'v Shell" where
  "shellStruct rootCmdName bannerText h =
     \<lparr>rootCmd = \<lparr>Use = rootCmdName, Short = ''Interactive shell'', Long = [], Aliases = [],
                  Run = NilRun, commands = [], commandsAreSorted = False,
                  helpFunc = DefaultHelp, helpCommand = None\<rparr>,
      rl = \<lparr>Prompt = ''> '', AutoComplete = []\<rparr>,
      currentPrompt = ''> '',
      commandModules = [],
      banner = bannerText,
      enabledModules = Map.empty,
      moduleCommands = Map.empty,
      State = Map.empty,
      heap = coreObjects h\<rparr>"

definition NewShell ::
  "string \<Rightarrow> string \<Rightarrow> error option \<Rightarrow> (addr \<Rightarrow> Command) \<Rightarrow> error + 'v Shell" where
  "NewShell rootCmdName bannerText rlErr h =
     (let rootCmdName = (if rootCmdName = [] then ''shell'' else rootCmdName)
      in case rlErr of
           Some err \<Rightarrow> Inl err
         | None \<Rightarrow> Inr (RegisterModule (shellStruct rootCmdName bannerText h) coreModule
                          coreInitialize))"

section \<open>The help function of the core module\<close>

text \<open>
  The closure receives the command help is asked for (the root or a child) and the
  arguments. Its output is the list of its print calls, each with format and arguments.
\<close>

datatype cmd_ref = RootCmd | SubCmd addr

datatype out_line =
    Println string
  | Printf string "string list"
  | DefaultHelpFunc cmd_ref "string list"


definition GetEnabledModules :: "'v Shell \<Rightarrow> string list \<Rightarrow> string list" where
  "GetEnabledModules s ks = filter (\<lambda>name. enabledModules s name = Some True) ks"

text \<open>The commands of a module as found, by name, among the root's commands.\<close>

definition cmdList :: "'v Shell \<Rightarrow> addr list \<Rightarrow> addr list \<Rightarrow> addr list" where
  "cmdList s cs cmds =
     concat (map (\<lambda>command.
        case find (\<lambda>rootCommand. Name_cmd (heap s rootCommand) = Name_cmd (heap s command)) cs of
          None \<Rightarrow> []
        | Some rootCommand \<Rightarrow> [rootCommand]) cmds)"

definition gatherModules :: "'v Shell \<Rightarrow> addr list \<Rightarrow> string list \<Rightarrow> (string \<rightharpoonup> addr list)" where
  "gatherModules s cs ks =
     foldl (\<lambda>modules moduleName.
        if \<not> IsModuleEnabled s moduleName then modules
        else modules(moduleName \<mapsto> cmdList s cs (commandsOf s moduleName))) Map.empty ks"

definition addHelpToCore :: "'v Shell \<Rightarrow> addr list \<Rightarrow> (string \<rightharpoonup> addr list) \<Rightarrow> (string \<rightharpoonup> addr list)" where
  "addHelpToCore s cs modules =
     (case find (\<lambda>rootCommand. Name_cmd (heap s rootCommand) = ''help'') cs of
        None \<Rightarrow> modules
      | Some rootCommand \<Rightarrow>
          (let coreCommands = (case modules ''core'' of None \<Rightarrow> [] | Some l \<Rightarrow> l)
           in modules(''core'' \<mapsto> coreCommands @ [rootCommand])))"

definition displayModule :: "'v Shell \<Rightarrow> (string \<rightharpoonup> addr list) \<Rightarrow> string \<Rightarrow> out_line list" where
  "displayModule s modules moduleName =
     (case modules moduleName of
        None \<Rightarrow> []
      | Some cmds \<Rightarrow>
          if cmds = [] then []
          else Printf ''\<newline>[%s]\<newline>'' [moduleName]
               # map (\<lambda>cmd. Printf ''  %-15s %s\<newline>''
                                [Name_cmd (heap s cmd), Short (heap s cmd)]) cmds)"

definition displayDisabled :: "'v Shell \<Rightarrow> out_line list" where
  "displayDisabled s =
     (let disabled = filter (\<lambda>moduleName. \<not> IsModuleEnabled s moduleName) (GetModules s)
      in if disabled = [] then []
         else Println ''\<newline>Disabled modules:''
              # map (\<lambda>moduleName. Printf ''  %s\<newline>'' [moduleName]) disabled)"

definition displayCommand :: "Command \<Rightarrow> out_line list" where
  "displayCommand subCmd =
     [Printf ''Command: %s\<newline>'' [Name_cmd subCmd],
      Printf ''Usage: %s\<newline>'' [Use subCmd]]
     @ (if Short subCmd \<noteq> [] then [Printf ''\<newline>%s\<newline>'' [Short subCmd]] else [])
     @ (if Long subCmd \<noteq> [] then [Printf ''\<newline>%s\<newline>'' [Long subCmd]] else [])
     @ (if Aliases subCmd \<noteq> []
        then [Printf ''\<newline>Aliases: %s\<newline>'' [Join (Aliases subCmd) '', '']] else [])"

text \<open>
  \<open>ksCommands\<close> and \<open>ksEnabled\<close> are the orders in which this call ranges over the
  per-module command map and over the enablement map.
\<close>

definition helpFunction ::
  "'v Shell \<Rightarrow> cmd_ref \<Rightarrow> string list \<Rightarrow> string list \<Rightarrow> string list \<Rightarrow> out_line list \<times> 'v Shell" where
  "helpFunction s cmd args ksCommands ksEnabled =
     (if cmd = RootCmd \<and> args = [] then
        (let (cs, c) = Commands (heap s) (rootCmd s);
             modules = addHelpToCore s cs (gatherModules s cs ksCommands);
             enabled = GetEnabledModules s ksEnabled
         in (Println ''Available commands:''
             # concat (map (displayModule s modules) enabled)
             @ displayDisabled s,
             s\<lparr>rootCmd := c\<rparr>))
      else case args of
        cmdName # _ \<Rightarrow>
          (let (cs, c) = Commands (heap s) (rootCmd s)
           in (case find (\<lambda>subCmd. Name_cmd (heap s subCmd) = cmdName
                                 \<or> NameAndAliases (heap s subCmd) = cmdName) cs of
                 Some subCmd \<Rightarrow> displayCommand (heap s subCmd)
               | None \<Rightarrow> [Printf ''Unknown command: %s\<newline>'' [cmdName]],
               s\<lparr>rootCmd := c\<rparr>))
      | [] \<Rightarrow> ([DefaultHelpFunc cmd args], s))"

text \<open>The module names that head a group of the listing, in the order printed.\<close>

definition groupHeaders :: "out_line list \<Rightarrow> string list" where
  "groupHeaders out =
     concat (map (\<lambda>line. case line of
                     Printf format args \<Rightarrow>
                       if format = ''\<newline>[%s]\<newline>'' then args else []
                   | _ \<Rightarrow> []) out)"

section \<open>Sequences of registry operations\<close>

text \<open>
  What happens to the registry of a running shell: the three operations, called at
  start-up or by the handlers of command lines; for every command line executed, the step
  of \<^verbatim>\<open>Execute\<close> that sets up cobra's help command; and the calls of \<^verbatim>\<open>Commands()\<close>
  that \<^verbatim>\<open>OnExit\<close> and the help function make, which sort the root's children.
\<close>

datatype 'v op =
    Register CommandModule "'v Shell \<Rightarrow> 'v Shell"
  | Enable string
  | Disable string
  | InitHelp addr
  | ListCommands

fun apply_op :: "'v Shell \<Rightarrow> 'v op \<Rightarrow> 'v Shell" where
  "apply_op s (Register module Initialize) = RegisterModule s module Initialize"
| "apply_op s (Enable moduleName) = snd (EnableModule s moduleName)"
| "apply_op s (Disable moduleName) = snd (DisableModule s moduleName)"
| "apply_op s (InitHelp a) = InitDefaultHelpCmd s a"
| "apply_op s ListCommands = s\<lparr>rootCmd := snd (Commands (heap s) (rootCmd s))\<rparr>"

definition run_ops :: "'v Shell \<Rightarrow> 'v op list \<Rightarrow> 'v Shell" where
  "run_ops s ops = foldl apply_op s ops"

text \<open>
  The command namespace, and the descriptors of the modules whose entry in the enablement
  table is true.
\<close>

definition Namespace :: "'v Shell \<Rightarrow> addr set" where
  "Namespace s = set (commands (rootCmd s))"



definition SetStates :: "'v Shell \<Rightarrow> (string \<times> 'v iface) list \<Rightarrow> 'v Shell" where
  "SetStates s kvs = foldl (\<lambda>s (key, val). SetState s key val) s kvs"

definition OnExits :: "'v Shell \<Rightarrow> hook list \<Rightarrow> 'v Shell" where
  "OnExits s fns = foldl OnExit s fns"

text \<open>The exit command of a shell: the first command named exit in \<^verbatim>\<open>Commands()\<close>.\<close>

definition lookupExit :: "'v Shell \<Rightarrow> addr option" where
  "lookupExit s =
     find (\<lambda>cmd. Name_cmd (heap s cmd) = ''exit'') (fst (Commands (heap s) (rootCmd s)))"

text \<open>The modules a sequence registers, and their initialization hooks, in order.\<close>

fun registeredModules :: "'v op list \<Rightarrow> CommandModule list" where
  "registeredModules [] = []"
| "registeredModules (Register module Initialize # ops) = module # registeredModules ops"
| "registeredModules (Enable moduleName # ops) = registeredModules ops"
| "registeredModules (Disable moduleName # ops) = registeredModules ops"
| "registeredModules (InitHelp a # ops) = registeredModules ops"
| "registeredModules (ListCommands # ops) = registeredModules ops"

fun hooksOf :: "'v op list \<Rightarrow> ('v Shell \<Rightarrow> 'v Shell) list" where
  "hooksOf [] = []"
| "hooksOf (Register module Initialize # ops) = Initialize # hooksOf ops"
| "hooksOf (Enable moduleName # ops) = hooksOf ops"
| "hooksOf (Disable moduleName # ops) = hooksOf ops"
| "hooksOf (InitHelp a # ops) = hooksOf ops"
| "hooksOf (ListCommands # ops) = hooksOf ops"


text \<open>
  An initialization hook receives the shell only as a \<^verbatim>\<open>ShellAPI\<close>, which has no operation
  on the list of registered modules. A hook keeps the registry when it also leaves the
  enablement table, the per-module command lists, the help command pointer and the root's
  children as they are (the children up to their order, which a call of \<^verbatim>\<open>Commands()\<close> may
  change).
\<close>

definition keepsModules :: "('v Shell \<Rightarrow> 'v Shell) \<Rightarrow> bool" where
  "keepsModules f \<longleftrightarrow> (\<forall>s. commandModules (f s) = commandModules s)"

definition sameRegistry :: "'v Shell \<Rightarrow> 'v Shell \<Rightarrow> bool" where
  "sameRegistry s' s \<longleftrightarrow>
     commandModules s' = commandModules s
   \<and> enabledModules s' = enabledModules s
   \<and> moduleCommands s' = moduleCommands s
   \<and> helpCommand (rootCmd s') = helpCommand (rootCmd s)
   \<and> mset (commands (rootCmd s')) = mset (commands (rootCmd s))"

definition keepsRegistry :: "('v Shell \<Rightarrow> 'v Shell) \<Rightarrow> bool" where
  "keepsRegistry f \<longleftrightarrow> (\<forall>s. sameRegistry (f s) s)"





section \<open>Example shells\<close>

text \<open>
  The timer module of \<^verbatim>\<open>examples/simple\<close>: commands time and reset; its hook stores the
  start time. Each call of its \<^verbatim>\<open>GetCommands\<close> allocates the two commands anew: a first
  call at the addresses 4 and 5, a second one at 6 and 7. Address 8 holds a variant of the
  time command that declares the alias t.
\<close>

definition timeCmd :: Command where
  "timeCmd = \<lparr>Use = ''time'', Short = ''Show elapsed time since shell started'', Long = [],
              Aliases = [], Run = Handler ''time''\<rparr>"

definition resetCmd :: Command where
  "resetCmd = \<lparr>Use = ''reset'', Short = ''Reset the timer'', Long = [], Aliases = [],
               Run = Handler ''reset''\<rparr>"

definition demoObjects :: "addr \<Rightarrow> Command" where
  "demoObjects =
     (\<lambda>_. resetCmd)(4 := timeCmd, 5 := resetCmd, 6 := timeCmd, 7 := resetCmd,
                     8 := timeCmd\<lparr>Aliases := [''t'']\<rparr>)"

definition timerModule :: CommandModule where
  "timerModule = \<lparr>Name = ''timer'', GetCommands = [4, 5]\<rparr>"


definition timerInitialize :: "nat \<Rightarrow> nat Shell \<Rightarrow> nat Shell" where
  "timerInitialize now s = SetState s ''start_time'' (Val now)"


definition clockModule :: CommandModule where
  "clockModule = \<lparr>Name = ''clock'', GetCommands = [8]\<rparr>"

definition coreShell :: "nat Shell" where
  "coreShell =
     RegisterModule (shellStruct ''timer-demo'' ''Welcome'' demoObjects) coreModule
       coreInitialize"

definition timerShell :: "nat Shell" where
  "timerShell = RegisterModule coreShell timerModule (timerInitialize 0)"


definition clockShell :: "nat Shell" where
  "clockShell = RegisterModule coreShell clockModule (\<lambda>s. s)"

text \<open>Two sequences of operations: one without and one with a repeated registration.\<close>

definition demoOps :: "nat op list" where
  "demoOps = [Register coreModule coreInitialize, Register timerModule (timerInitialize 0),
              Disable ''timer'', Enable ''timer'', Disable ''timer'']"









section \<open>Fields the registry operations leave alone\<close>

lemma addCommands_fields [simp]:
  "commands (rootCmd (addCommands s cmds)) = commands (rootCmd s) @ cmds"
  "commandModules (addCommands s cmds) = commandModules s"
  "enabledModules (addCommands s cmds) = enabledModules s"
  "moduleCommands (addCommands s cmds) = moduleCommands s"
  "State (addCommands s cmds) = State s"
  "heap (addCommands s cmds) = heap s"
  "currentPrompt (addCommands s cmds) = currentPrompt s"
  unfolding addCommands_def
  by (induction cmds arbitrary: s) (simp_all add: AddCommand_def)

lemma removeCommands_fields [simp]:
  "commands (rootCmd (removeCommands s cmds))
     = filter (\<lambda>x. x \<notin> set cmds) (commands (rootCmd s))"
  "commandModules (removeCommands s cmds) = commandModules s"
  "enabledModules (removeCommands s cmds) = enabledModules s"
  "moduleCommands (removeCommands s cmds) = moduleCommands s"
  "State (removeCommands s cmds) = State s"
  "heap (removeCommands s cmds) = heap s"
  "currentPrompt (removeCommands s cmds) = currentPrompt s"
  unfolding removeCommands_def
  by (induction cmds arbitrary: s) (simp_all add: RemoveCommand_def conj_commute)

lemma Commands_mset [simp]:
  "mset (fst (Commands h c)) = mset (commands c)"
  "mset (commands (snd (Commands h c))) = mset (commands c)"
  by (simp_all add: Commands_def Let_def)

lemma Commands_set [simp]:
  "set (fst (Commands h c)) = set (commands c)"
  "set (commands (snd (Commands h c))) = set (commands c)"
  "distinct (fst (Commands h c)) = distinct (commands c)"
  "distinct (commands (snd (Commands h c))) = distinct (commands c)"
  by (simp_all add: Commands_def Let_def)

lemma updateCompleter_fields [simp]:
  "mset (commands (rootCmd (updateCompleter s))) = mset (commands (rootCmd s))"
  "set (commands (rootCmd (updateCompleter s))) = set (commands (rootCmd s))"
  "distinct (commands (rootCmd (updateCompleter s))) = distinct (commands (rootCmd s))"
  "commandModules (updateCompleter s) = commandModules s"
  "enabledModules (updateCompleter s) = enabledModules s"
  "moduleCommands (updateCompleter s) = moduleCommands s"
  "State (updateCompleter s) = State s"
  "heap (updateCompleter s) = heap s"
  "currentPrompt (updateCompleter s) = currentPrompt s"
  by (simp_all add: updateCompleter_def Commands_def Let_def split: prod.splits)

section \<open>Registration order\<close>

text \<open>
  C9. \<open>RegisterModule\<close> calls the initialization hook on a shell in which the module is
  already in the registry and enabled, and its descriptors are in the namespace: there is
  one state, the same for every hook, to which the hook is applied, and that state has these
  properties.
\<close>

theorem RegisterModule_before_Initialize:
  "\<exists>s'. (\<forall>Initialize. RegisterModule s module Initialize = updateCompleter (Initialize s'))
        \<and> IsModuleEnabled s' (Name module)
        \<and> module \<in> set (commandModules s')
        \<and> moduleCommands s' (Name module) = Some (GetCommands module)
        \<and> set (GetCommands module) \<subseteq> Namespace s'"
  unfolding RegisterModule_def Let_def
  by (rule exI, intro conjI allI, rule refl) (simp_all add: IsModuleEnabled_def Namespace_def)

section \<open>Enabling and disabling\<close>

text \<open>
  C5. Disabling the module named core returns the protected-module error and the shell is
  the same as before, in every field.
\<close>

theorem DisableModule_core_protected:
  "DisableModule s ''core'' = (Some ProtectedModule, s)"
  by (simp add: DisableModule_def)

text \<open>
  C7. A second \<open>EnableModule\<close> (or \<open>DisableModule\<close>) of the same name, directly after the
  first, returns what the first returned and leaves the shell as the first left it.
\<close>

theorem Enable_Disable_idempotent:
  "EnableModule (snd (EnableModule s moduleName)) moduleName
     = (fst (EnableModule s moduleName), snd (EnableModule s moduleName))
   \<and> DisableModule (snd (DisableModule s moduleName)) moduleName
     = (fst (DisableModule s moduleName), snd (DisableModule s moduleName))"
  by (simp add: EnableModule_def DisableModule_def Let_def moduleFound_def IsModuleEnabled_def)

section \<open>The namespace and the enablement table\<close>

lemma helpCommand_fields [simp]:
  "helpCommand (rootCmd (addCommands s cmds)) = helpCommand (rootCmd s)"
  "helpCommand (rootCmd (removeCommands s cmds)) = helpCommand (rootCmd s)"
  "helpCommand (rootCmd (updateCompleter s)) = helpCommand (rootCmd s)"
proof -
  show "helpCommand (rootCmd (addCommands s cmds)) = helpCommand (rootCmd s)"
    unfolding addCommands_def
    by (induction cmds arbitrary: s) (simp_all add: AddCommand_def)
  show "helpCommand (rootCmd (removeCommands s cmds)) = helpCommand (rootCmd s)"
    unfolding removeCommands_def
    by (induction cmds arbitrary: s) (simp_all add: RemoveCommand_def)
  show "helpCommand (rootCmd (updateCompleter s)) = helpCommand (rootCmd s)"
    by (simp add: updateCompleter_def Commands_def Let_def)
qed







lemma sameRegistry_refl [simp]: "sameRegistry s s"
  by (simp add: sameRegistry_def)






lemma InitDefaultHelpCmd_fields [simp]:
  "commandModules (InitDefaultHelpCmd s a) = commandModules s"
  "enabledModules (InitDefaultHelpCmd s a) = enabledModules s"
  "moduleCommands (InitDefaultHelpCmd s a) = moduleCommands s"
  "State (InitDefaultHelpCmd s a) = State s"
  by (simp_all add: InitDefaultHelpCmd_def Let_def split: option.splits)





lemma commandModules_EnableModule [simp]:
  "commandModules (snd (EnableModule s n)) = commandModules s"
  by (simp add: EnableModule_def Let_def)

lemma commandModules_DisableModule [simp]:
  "commandModules (snd (DisableModule s n)) = commandModules s"
  by (simp add: DisableModule_def Let_def)

lemma helpCommand_EnableModule [simp]:
  "helpCommand (rootCmd (snd (EnableModule s n))) = helpCommand (rootCmd s)"
  by (simp add: EnableModule_def Let_def)

lemma helpCommand_DisableModule [simp]:
  "helpCommand (rootCmd (snd (DisableModule s n))) = helpCommand (rootCmd s)"
  by (simp add: DisableModule_def Let_def)







lemma keepsRegistry_keepsModules: "keepsRegistry f \<Longrightarrow> keepsModules f"
  by (simp add: keepsRegistry_def keepsModules_def sameRegistry_def)

lemma keepsRegistry_coreInitialize: "keepsRegistry coreInitialize"
  by (simp add: keepsRegistry_def sameRegistry_def coreInitialize_def)

lemma keepsRegistry_timerInitialize: "keepsRegistry (timerInitialize now)"
  by (simp add: keepsRegistry_def sameRegistry_def timerInitialize_def SetState_def)











section \<open>Names that were never registered\<close>

lemma commandModules_RegisterModule:
  "keepsModules Initialize
     \<Longrightarrow> commandModules (RegisterModule s m Initialize) = commandModules s @ [m]"
  by (simp add: RegisterModule_def Let_def keepsModules_def)

lemma commandModules_run_ops:
  "list_all keepsModules (hooksOf ops)
     \<Longrightarrow> commandModules (run_ops s ops) = commandModules s @ registeredModules ops"
  unfolding run_ops_def
proof (induction ops arbitrary: s)
  case Nil
  then show ?case by simp
next
  case (Cons op ops)
  then show ?case by (cases op) (simp_all add: commandModules_RegisterModule)
qed

text \<open>
  C6. Take any sequence of registry operations on a new shell (the initialization hooks
  cannot change the list of registered modules, to which \<^verbatim>\<open>ShellAPI\<close> gives no access)
  and a name that was not the name of any module passed to \<open>RegisterModule\<close>. Then
  \<open>EnableModule\<close> returns the module-not-found error and the shell as it was, in every
  field, and so does \<open>DisableModule\<close> unless the name is core.
\<close>

theorem unregistered_module_not_found:
  assumes "list_all keepsModules (hooksOf ops)"
      and "moduleName \<notin> Name ` set (registeredModules ops)"
      and "s = run_ops (shellStruct rootCmdName bannerText h) ops"
  shows "EnableModule s moduleName = (Some (ModuleNotFound moduleName), s)
       \<and> (moduleName \<noteq> ''core''
            \<longrightarrow> DisableModule s moduleName = (Some (ModuleNotFound moduleName), s))"
proof -
  have "commandModules s = registeredModules ops"
    unfolding assms(3) using assms(1) by (simp add: commandModules_run_ops shellStruct_def)
  with assms(2) have "\<not> moduleFound s moduleName"
    by (auto simp: moduleFound_def list_ex_iff)
  then show ?thesis by (simp add: EnableModule_def DisableModule_def)
qed

text \<open>The name nosuch, after core and timer were registered.\<close>

theorem unregistered_module_not_found_witness:
  "EnableModule (run_ops (shellStruct ''timer-demo'' ''Welcome'' demoObjects) demoOps) ''nosuch''
     = (Some (ModuleNotFound ''nosuch''),
        run_ops (shellStruct ''timer-demo'' ''Welcome'' demoObjects) demoOps)
   \<and> DisableModule (run_ops (shellStruct ''timer-demo'' ''Welcome'' demoObjects) demoOps) ''nosuch''
     = (Some (ModuleNotFound ''nosuch''),
        run_ops (shellStruct ''timer-demo'' ''Welcome'' demoObjects) demoOps)"
proof -
  have 1: "list_all keepsModules (hooksOf demoOps)"
    by (simp add: demoOps_def keepsRegistry_coreInitialize keepsRegistry_timerInitialize
                  keepsRegistry_keepsModules)
  have 2: "''nosuch'' \<notin> Name ` set (registeredModules demoOps)"
    by (simp add: demoOps_def coreModule_def timerModule_def)
  show ?thesis
    using unregistered_module_not_found [OF 1 2 refl] by simp
qed


section \<open>Shared state store\<close>

lemma State_SetStates_other:
  "k \<notin> fst ` set kvs \<Longrightarrow> State (SetStates s kvs) k = State s k"
  unfolding SetStates_def
  by (induction kvs arbitrary: s) (auto simp: SetState_def)

lemma State_NewShell:
  "NewShell rootCmdName bannerText rlErr h = Inr s0 \<Longrightarrow> State s0 = Map.empty"
  by (auto simp: NewShell_def RegisterModule_def coreInitialize_def shellStruct_def Let_def
           split: option.splits)

text \<open>
  C8. After \<open>SetState s k v\<close> and any further \<open>SetState\<close> calls on other keys, \<open>GetState\<close>
  returns \<open>v\<close> and true for \<open>k\<close>. In a shell made by \<open>NewShell\<close>, after \<open>SetState\<close> calls
  on other keys only, \<open>GetState\<close> returns nil and false for \<open>k\<close>.
\<close>

theorem SetState_GetState_roundtrip:
  assumes "k \<notin> fst ` set kvs"
      and "NewShell rootCmdName bannerText rlErr h = Inr s0"
  shows "GetState (SetStates (SetState s k v) kvs) k = (v, True)
       \<and> GetState (SetStates s0 kvs) k = (Nil, False)"
  using assms
  by (simp add: GetState_def State_SetStates_other State_NewShell SetState_def)

text \<open>
  The key a, set on the timer shell and read after the timer's own key was set again; and
  the same key read on a new shell on which only the timer's key was set.
\<close>

theorem SetState_GetState_roundtrip_witness:
  "GetState (SetStates (SetState timerShell ''a'' (Val 1)) [(''start_time'', Val 2)]) ''a''
     = (Val 1, True)
   \<and> GetState (SetStates coreShell [(''start_time'', Val 2)]) ''a'' = (Nil, False)"
proof -
  have new: "NewShell ''timer-demo'' ''Welcome'' None demoObjects = Inr coreShell"
    by (simp add: NewShell_def coreShell_def)
  have other: "''a'' \<notin> fst ` set [(''start_time'', Val (2::nat))]"
    by simp
  show ?thesis
    using SetState_GetState_roundtrip [OF other new, of timerShell "Val 1"] by simp
qed

section \<open>The prompt\<close>

lemma unicodeSpaces_blank:
  "e \<in> set unicodeSpaces \<Longrightarrow> CHR '' '' \<in> set e \<Longrightarrow> e = '' ''"
  by (auto simp: unicodeSpaces_def)

lemma trailingSpace_blank: "trailingSpace (s @ '' '') = Some '' ''"
  by (simp add: trailingSpace_def unicodeSpaces_def)

lemma TrimRightSpace_blank: "TrimRightSpace (s @ '' '') = TrimRightSpace s"
  by (subst TrimRightSpace.simps) (simp add: trailingSpace_blank)

lemma leading_append_blank:
  assumes "e \<in> set unicodeSpaces" and "s \<noteq> []"
  shows "take (length e) (s @ '' '') = e \<longleftrightarrow> take (length e) s = e"
proof (cases "length e \<le> length s")
  case True
  then show ?thesis by simp
next
  case False
  then have "take (length e) s = s" by simp
  moreover have "take (length e) (s @ '' '') = s @ '' ''" using False by simp
  moreover have "s @ '' '' \<noteq> e"
  proof
    assume eq: "s @ '' '' = e"
    then have "CHR '' '' \<in> set e" by auto
    with assms(1) have "e = '' ''" by (rule unicodeSpaces_blank)
    with eq assms(2) show False by simp
  qed
  moreover have "s \<noteq> e" using False by auto
  ultimately show ?thesis by simp
qed

lemma leadingSpace_append_blank:
  assumes "s \<noteq> []"
  shows "leadingSpace (s @ '' '') = leadingSpace s"
  unfolding leadingSpace_def
  by (rule find_cong [OF refl]) (erule leading_append_blank [OF _ assms])

lemma leadingSpace_Nil: "leadingSpace [] = None"
  by (simp add: leadingSpace_def unicodeSpaces_def)

lemma leadingSpace_blank: "leadingSpace '' '' = Some '' ''"
  by (simp add: leadingSpace_def unicodeSpaces_def)

lemma TrimLeftSpace_Nil: "TrimLeftSpace [] = []"
  by (subst TrimLeftSpace.simps) (simp add: leadingSpace_Nil)

lemma TrimLeftSpace_append_blank:
  "TrimLeftSpace (s @ '' '') = (if TrimLeftSpace s = [] then [] else TrimLeftSpace s @ '' '')"
proof (induction s rule: TrimLeftSpace.induct)
  case (1 s)
  show ?case
  proof (cases "s = []")
    case True
    have "TrimLeftSpace '' '' = []"
      by (subst TrimLeftSpace.simps) (simp add: leadingSpace_blank TrimLeftSpace_Nil)
    with True show ?thesis by (simp add: TrimLeftSpace_Nil)
  next
    case False
    note ne = this
    show ?thesis
    proof (cases "leadingSpace s")
      case None
      then have "TrimLeftSpace s = s" by (subst TrimLeftSpace.simps) simp
      moreover have "TrimLeftSpace (s @ '' '') = s @ '' ''"
        by (subst TrimLeftSpace.simps) (simp add: leadingSpace_append_blank [OF ne] None)
      ultimately show ?thesis using ne by simp
    next
      case (Some e)
      then have pre: "take (length e) s = e"
        by (auto simp: leadingSpace_def find_Some_iff)
      then have le: "length e \<le> length s"
        by (metis length_take min.cobounded2 min.commute)
      have l: "TrimLeftSpace s = TrimLeftSpace (drop (length e) s)"
        by (subst TrimLeftSpace.simps) (simp add: Some)
      have r: "TrimLeftSpace (s @ '' '') = TrimLeftSpace (drop (length e) s @ '' '')"
        using le
        by (subst TrimLeftSpace.simps) (simp add: leadingSpace_append_blank [OF ne] Some)
      show ?thesis
        using "1.IH" [OF Some] l r by simp
    qed
  qed
qed

lemma TrimRightSpace_Nil: "TrimRightSpace [] = []"
  by (subst TrimRightSpace.simps) (simp add: trailingSpace_def unicodeSpaces_def)

lemma TrimSpace_append_blank: "TrimSpace (s @ '' '') = TrimSpace s"
  by (simp add: TrimSpace_def TrimLeftSpace_append_blank TrimRightSpace_blank TrimRightSpace_Nil)

lemma TrimSpace_no_space:
  "leadingSpace s = None \<Longrightarrow> trailingSpace s = None \<Longrightarrow> TrimSpace s = s"
  unfolding TrimSpace_def
  by (subst TrimLeftSpace.simps, simp, subst TrimRightSpace.simps, simp)

lemma leadingSpace_TrimLeftSpace: "leadingSpace (TrimLeftSpace s) = None"
proof (induction s rule: TrimLeftSpace.induct)
  case (1 s)
  show ?case
  proof (cases "leadingSpace s")
    case None
    then show ?thesis by (subst TrimLeftSpace.simps) simp
  next
    case (Some e)
    with "1.IH" show ?thesis by (subst TrimLeftSpace.simps) simp
  qed
qed

lemma trailingSpace_TrimRightSpace: "trailingSpace (TrimRightSpace s) = None"
proof (induction s rule: TrimRightSpace.induct)
  case (1 s)
  show ?case
  proof (cases "trailingSpace s")
    case None
    then show ?thesis by (subst TrimRightSpace.simps) simp
  next
    case (Some e)
    with "1.IH" show ?thesis by (subst TrimRightSpace.simps) simp
  qed
qed

lemma TrimLeftSpace_removes:
  "\<exists>ws. set ws \<subseteq> set unicodeSpaces \<and> s = concat ws @ TrimLeftSpace s"
proof (induction s rule: TrimLeftSpace.induct)
  case (1 s)
  show ?case
  proof (cases "leadingSpace s")
    case None
    then have "TrimLeftSpace s = s" by (subst TrimLeftSpace.simps) simp
    then have "set [] \<subseteq> set unicodeSpaces \<and> s = concat [] @ TrimLeftSpace s" by simp
    then show ?thesis by blast
  next
    case (Some e)
    then have mem: "e \<in> set unicodeSpaces" and pre: "take (length e) s = e"
      by (auto simp: leadingSpace_def find_Some_iff)
    have step: "TrimLeftSpace s = TrimLeftSpace (drop (length e) s)"
      by (subst TrimLeftSpace.simps) (simp add: Some)
    from "1.IH" [OF Some] obtain ws where ws: "set ws \<subseteq> set unicodeSpaces"
        "drop (length e) s = concat ws @ TrimLeftSpace (drop (length e) s)" by blast
    have "s = e @ drop (length e) s" using pre by (metis append_take_drop_id)
    with ws(2) step have "s = concat (e # ws) @ TrimLeftSpace s" by simp
    moreover have "set (e # ws) \<subseteq> set unicodeSpaces" using mem ws(1) by simp
    ultimately show ?thesis by blast
  qed
qed

lemma TrimRightSpace_removes:
  "\<exists>ws. set ws \<subseteq> set unicodeSpaces \<and> s = TrimRightSpace s @ concat ws"
proof (induction s rule: TrimRightSpace.induct)
  case (1 s)
  show ?case
  proof (cases "trailingSpace s")
    case None
    then have "TrimRightSpace s = s" by (subst TrimRightSpace.simps) simp
    then have "set [] \<subseteq> set unicodeSpaces \<and> s = TrimRightSpace s @ concat []" by simp
    then show ?thesis by blast
  next
    case (Some e)
    then have mem: "e \<in> set unicodeSpaces" and suf: "drop (length s - length e) s = e"
      by (auto simp: trailingSpace_def find_Some_iff)
    define t where "t = take (length s - length e) s"
    have step: "TrimRightSpace s = TrimRightSpace t"
      unfolding t_def by (subst TrimRightSpace.simps) (simp add: Some)
    from "1.IH" [OF Some] obtain ws where ws: "set ws \<subseteq> set unicodeSpaces"
        "t = TrimRightSpace t @ concat ws" unfolding t_def by blast
    have "s = t @ e" unfolding t_def using suf by (metis append_take_drop_id)
    also have "\<dots> = (TrimRightSpace t @ concat ws) @ e" using ws(2) by simp
    finally have "s = TrimRightSpace s @ concat (ws @ [e])" using step by simp
    moreover have "set (ws @ [e]) \<subseteq> set unicodeSpaces" using mem ws(1) by simp
    ultimately show ?thesis by blast
  qed
qed

lemma leadingSpace_prefix:
  assumes "leadingSpace (t @ u) = None"
  shows "leadingSpace t = None"
proof -
  { fix e assume e: "e \<in> set unicodeSpaces" "take (length e) t = e"
    then have "length (take (length e) t) = length e" by simp
    then have "length e \<le> length t" by simp
    then have "take (length e) (t @ u) = e" using e(2) by simp
    with assms e(1) have False by (auto simp: leadingSpace_def find_None_iff) }
  then show ?thesis by (auto simp: leadingSpace_def find_None_iff)
qed

lemma TrimSpace_trimmed:
  "leadingSpace (TrimSpace s) = None \<and> trailingSpace (TrimSpace s) = None
   \<and> (\<exists>ws ws'. set ws \<subseteq> set unicodeSpaces \<and> set ws' \<subseteq> set unicodeSpaces
                 \<and> s = concat ws @ TrimSpace s @ concat ws')"
proof -
  obtain ws where ws: "set ws \<subseteq> set unicodeSpaces" "s = concat ws @ TrimLeftSpace s"
    using TrimLeftSpace_removes by blast
  obtain ws' where ws': "set ws' \<subseteq> set unicodeSpaces"
      "TrimLeftSpace s = TrimSpace s @ concat ws'"
    using TrimRightSpace_removes [of "TrimLeftSpace s"] by (auto simp: TrimSpace_def)
  have "leadingSpace (TrimSpace s @ concat ws') = None"
    using leadingSpace_TrimLeftSpace [of s] ws'(2) by simp
  then have "leadingSpace (TrimSpace s) = None" by (rule leadingSpace_prefix)
  moreover have "trailingSpace (TrimSpace s) = None"
    by (simp add: TrimSpace_def trailingSpace_TrimRightSpace)
  moreover have "s = concat ws @ TrimSpace s @ concat ws'"
    using ws(2) ws'(2) by simp
  ultimately show ?thesis using ws(1) ws'(1) by blast
qed

text \<open>
  C10. After \<open>SetPrompt s p\<close> the stored prompt and the prompt of the line reader are \<open>p\<close>
  followed by one space. \<open>GetPrompt\<close> then returns \<open>p\<close> with the surrounding white space
  trimmed: what it returns neither starts nor ends with a white-space rune, and \<open>p\<close> is a
  run of white-space runes, then the returned string, then a run of white-space runes. So
  it returns \<open>p\<close> itself when \<open>p\<close> neither starts nor ends with white space.
\<close>

theorem SetPrompt_GetPrompt:
  "currentPrompt (SetPrompt s p) = p @ '' ''
   \<and> Prompt (rl (SetPrompt s p)) = p @ '' ''
   \<and> GetPrompt (SetPrompt s p) = TrimSpace p
   \<and> leadingSpace (GetPrompt (SetPrompt s p)) = None
   \<and> trailingSpace (GetPrompt (SetPrompt s p)) = None
   \<and> (\<exists>ws ws'. set ws \<subseteq> set unicodeSpaces \<and> set ws' \<subseteq> set unicodeSpaces
                 \<and> p = concat ws @ GetPrompt (SetPrompt s p) @ concat ws')
   \<and> (leadingSpace p = None \<and> trailingSpace p = None \<longrightarrow> GetPrompt (SetPrompt s p) = p)"
proof -
  have g: "GetPrompt (SetPrompt s p) = TrimSpace p"
    by (simp add: SetPrompt_def GetPrompt_def Let_def TrimSpace_append_blank)
  show ?thesis
    unfolding g using TrimSpace_trimmed [of p]
    by (simp add: SetPrompt_def Let_def TrimSpace_no_space)
qed

text \<open>
  The prompt the timer example sets, which has no white space at either end, and a prompt
  with two leading spaces and a trailing no-break space and space, of which \<open>GetPrompt\<close>
  returns the two letters between them.
\<close>

theorem SetPrompt_GetPrompt_witness:
  "leadingSpace ''(5s)'' = None \<and> trailingSpace ''(5s)'' = None
   \<and> currentPrompt (SetPrompt timerShell ''(5s)'') = ''(5s) ''
   \<and> Prompt (rl (SetPrompt timerShell ''(5s)'')) = ''(5s) ''
   \<and> GetPrompt (SetPrompt timerShell ''(5s)'') = ''(5s)''
   \<and> GetPrompt (SetPrompt timerShell (''  hi'' @ [CHR 0xC2, CHR 0xA0, CHR '' ''])) = ''hi''"
proof -
  have 1: "leadingSpace ''(5s)'' = None" by code_simp
  have 2: "trailingSpace ''(5s)'' = None" by code_simp
  note inst = SetPrompt_GetPrompt [of timerShell "''(5s)''"]
  from inst have 3: "currentPrompt (SetPrompt timerShell ''(5s)'') = ''(5s) ''" by simp
  from inst have 4: "Prompt (rl (SetPrompt timerShell ''(5s)'')) = ''(5s) ''" by simp
  from inst 1 2 have 5: "GetPrompt (SetPrompt timerShell ''(5s)'') = ''(5s)''" by blast
  have "TrimSpace (''  hi'' @ [CHR 0xC2, CHR 0xA0, CHR '' '']) = ''hi''" by code_simp
  with SetPrompt_GetPrompt [of timerShell "''  hi'' @ [CHR 0xC2, CHR 0xA0, CHR '' '']"]
  have 6: "GetPrompt (SetPrompt timerShell (''  hi'' @ [CHR 0xC2, CHR 0xA0, CHR '' ''])) = ''hi''"
    by simp
  from 1 2 3 4 5 6 show ?thesis by blast
qed

section \<open>Exit handlers\<close>

lemma Name_cmd_Run_update [simp]: "Name_cmd (c\<lparr>Run := r\<rparr>) = Name_cmd c"
  by (simp add: Name_cmd_def)

lemma Commands_again:
  "(\<And>x. Name_cmd (h' x) = Name_cmd (h x))
     \<Longrightarrow> Commands h' (snd (Commands h c)) = (fst (Commands h c), snd (Commands h c))"
  by (simp add: Commands_def Let_def)

lemma OnExit_heap:
  assumes "lookupExit s = Some cmd"
  shows "heap (OnExit s fn)
           = (heap s)(cmd := (heap s cmd)\<lparr>Run := ExitWrapper fn (Run (heap s cmd))\<rparr>)"
  using assms by (simp add: OnExit_def lookupExit_def Let_def case_prod_beta)

lemma OnExit_rootCmd: "rootCmd (OnExit s fn) = snd (Commands (heap s) (rootCmd s))"
  by (simp add: OnExit_def Let_def case_prod_beta split: option.splits)

lemma OnExit_names: "Name_cmd (heap (OnExit s fn) x) = Name_cmd (heap s x)"
  by (simp add: OnExit_def Let_def case_prod_beta split: option.splits)

lemma lookupExit_OnExit: "lookupExit (OnExit s fn) = lookupExit s"
  by (simp add: lookupExit_def OnExit_rootCmd OnExit_names Commands_again)

text \<open>
  C2, as it holds. When the shell has an exit command, then after any sequence of \<open>OnExit\<close>
  registrations running that command calls every registered handler once, the handler
  registered last first and the one registered first last, and then does what the command
  did before the registrations (for the built-in command: print the farewell and terminate
  the process). The exit command stays the same command.
\<close>

theorem exit_hooks_run_last_registered_first:
  assumes "lookupExit s = Some cmd"
  shows "call_run (Run (heap (OnExits s fns) cmd))
           = map HookCalled (rev fns) @ call_run (Run (heap s cmd))
       \<and> lookupExit (OnExits s fns) = Some cmd"
  using assms unfolding OnExits_def
proof (induction fns arbitrary: s)
  case Nil
  then show ?case by simp
next
  case (Cons fn fns)
  have "lookupExit (OnExit s fn) = Some cmd"
    using Cons.prems by (simp add: lookupExit_OnExit)
  from Cons.IH [OF this] show ?case
    by (simp add: OnExit_heap [OF Cons.prems])
qed

text \<open>Three handlers registered on a new shell, and the built-in exit command at address 0.\<close>

theorem exit_hooks_run_last_registered_first_witness:
  "lookupExit coreShell = Some 0
   \<and> call_run (Run (heap (OnExits coreShell [1, 2, 3]) 0))
       = [HookCalled 3, HookCalled 2, HookCalled 1, Stdout ''Goodbye!\<newline>'', OsExit 0]"
proof -
  have 1: "lookupExit coreShell = Some 0" by code_simp
  have 2: "call_run (Run (heap coreShell 0)) = [Stdout ''Goodbye!\<newline>'', OsExit 0]"
    by code_simp
  show ?thesis
    using exit_hooks_run_last_registered_first [OF 1, of "[1, 2, 3]"] 1 2 by simp
qed

text \<open>
  C2 as stated fails: with the handlers 1 and 2 registered in this order, running the exit
  command does not call 1 before 2.
\<close>

theorem exit_hooks_registration_order_counterexample:
  "call_run (Run (heap (OnExits coreShell [1, 2]) 0))
     \<noteq> map HookCalled [1, 2] @ [Stdout ''Goodbye!\<newline>'', OsExit 0]"
  by code_simp

section \<open>The help listing\<close>



lemma cmdList_Nil [simp]: "cmdList s cs [] = []"
  by (simp add: cmdList_def)


lemma groupHeaders_Nil [simp]: "groupHeaders [] = []"
  by (simp add: groupHeaders_def)


lemma groupHeaders_append [simp]: "groupHeaders (xs @ ys) = groupHeaders xs @ groupHeaders ys"
  by (simp add: groupHeaders_def)

lemma groupHeaders_Cons_Println [simp]: "groupHeaders (Println x # xs) = groupHeaders xs"
  by (simp add: groupHeaders_def)


lemma groupHeaders_displayDisabled [simp]: "groupHeaders (displayDisabled s) = []"
  by (simp add: displayDisabled_def groupHeaders_def Let_def o_def)








lemma NameAndAliases_token:
  assumes "CHR '' '' \<notin> set token" and "NameAndAliases c = token"
  shows "Name_cmd c = token"
proof (cases "Aliases c")
  case Nil
  with assms(2) show ?thesis by (simp add: NameAndAliases_def)
next
  case (Cons a as)
  with assms(2) have "CHR '' '' \<in> set token" by (auto simp: NameAndAliases_def)
  with assms(1) show ?thesis by simp
qed

text \<open>
  C4. The command at address 8 is in the namespace, is named time and has the alias t. Help
  asked with the token t (as after the input line \<^verbatim>\<open>t --help\<close>, where cobra resolves the
  alias and passes the arguments on) reports an unknown command, while help asked with the
  token time shows the command: the test on \<open>NameAndAliases\<close> compares the token with the
  joined string, and for a token without a space it can only hold where the test on the
  name holds (\<open>NameAndAliases_token\<close>).
\<close>

theorem help_by_alias_reports_unknown:
  "8 \<in> Namespace clockShell
   \<and> Name_cmd (heap clockShell 8) = ''time''
   \<and> Aliases (heap clockShell 8) = [''t'']
   \<and> fst (helpFunction clockShell (SubCmd 8) [''t'', ''--help''] [] [])
       = [Printf ''Unknown command: %s\<newline>'' [''t'']]
   \<and> fst (helpFunction clockShell (SubCmd 8) [''time'', ''--help''] [] [])
       = displayCommand (heap clockShell 8)"
  by code_simp

end
